theory Spec2Isabelle
  imports Complex_Main "HOL-Library.Sublist"
begin

section \<open>Values decoded from JSON\<close>

text \<open>
  The profile and post data the program handles are whatever \<^verbatim>\<open>response.json()\<close>
  decodes: Python \<^verbatim>\<open>None\<close>, \<^verbatim>\<open>bool\<close>, \<^verbatim>\<open>int\<close>, \<^verbatim>\<open>float\<close>, \<^verbatim>\<open>str\<close>,
  \<^verbatim>\<open>list\<close> and \<^verbatim>\<open>dict\<close>. A dict is an association list in insertion order; a
  dict built by Python has every key once (\<open>distinct (map fst kvs)\<close>). A finite float
  is the rational it denotes.
\<close>

datatype json =
    JNull
  | JBool bool
  | JInt int
  | JFloat rat
  | JStr string
  | JArr "json list"
  | JObj "(string \<times> json) list"

type_synonym dict = "(string \<times> json) list"

fun py_type_name :: "json \<Rightarrow> string" where
  "py_type_name JNull = ''NoneType''"
| "py_type_name (JBool b) = ''bool''"
| "py_type_name (JInt i) = ''int''"
| "py_type_name (JFloat r) = ''float''"
| "py_type_name (JStr s) = ''str''"
| "py_type_name (JArr xs) = ''list''"
| "py_type_name (JObj kvs) = ''dict''"

text \<open>Truth value testing (\<^verbatim>\<open>not x\<close>, \<^verbatim>\<open>x or y\<close>) on decoded values.\<close>

fun py_truthy :: "json \<Rightarrow> bool" where
  "py_truthy JNull = False"
| "py_truthy (JBool b) = b"
| "py_truthy (JInt i) = (i \<noteq> 0)"
| "py_truthy (JFloat r) = (r \<noteq> 0)"
| "py_truthy (JStr s) = (s \<noteq> [])"
| "py_truthy (JArr xs) = (xs \<noteq> [])"
| "py_truthy (JObj kvs) = (kvs \<noteq> [])"

text \<open>\<^verbatim>\<open>x or y\<close> where \<^verbatim>\<open>x\<close> is the result of \<^verbatim>\<open>dict.get\<close> (\<open>None\<close>: no such key).\<close>

definition py_or :: "json option \<Rightarrow> json \<Rightarrow> json" where
  "py_or x y = (case x of None \<Rightarrow> y | Some v \<Rightarrow> if py_truthy v then v else y)"

text \<open>The slice \<^verbatim>\<open>xs[:n]\<close>: a negative \<^verbatim>\<open>n\<close> counts from the end.\<close>

definition py_slice_to :: "int \<Rightarrow> 'a list \<Rightarrow> 'a list" where
  "py_slice_to n xs =
     (if 0 \<le> n then take (nat n) xs else take (length xs - nat (- n)) xs)"

section \<open>Exceptions and effects\<close>

text \<open>
  An exception is a value: the class the handlers of the program test for, and the text
  \<^verbatim>\<open>str(e)\<close>. \<open>RequestException\<close> and \<open>TweepyException\<close> stand for every instance of
  \<^verbatim>\<open>requests.exceptions.RequestException\<close> and of \<^verbatim>\<open>tweepy.TweepyException\<close>,
  subclasses included (\<^verbatim>\<open>HTTPError\<close>, \<^verbatim>\<open>ConnectionError\<close>, \<^verbatim>\<open>Timeout\<close>,
  \<^verbatim>\<open>requests.exceptions.JSONDecodeError\<close>); what a call raises is given by the
  environment below. Only instances of
  \<^verbatim>\<open>Exception\<close> are modelled (an interrupt of the process is not).

  Every call that leaves the process (an HTTP request, the microblog client, the lookup
  agents, the language model) may answer differently each time, so an operation is a
  function of the state of the outside world \<open>'w\<close>: it returns the new state and either
  the exception it raised (\<open>Inl\<close>) or its value (\<open>Inr\<close>). Log records are not modelled:
  no result depends on them.
\<close>

datatype exn_class =
    RequestException | TweepyException | ValueError | KeyError | TypeError
  | AttributeError | OutputParserException | OtherException

datatype exn = Exn exn_class string

fun isinstance_RequestException :: "exn \<Rightarrow> bool" where
  "isinstance_RequestException (Exn c m) = (c = RequestException)"

fun isinstance_TweepyException :: "exn \<Rightarrow> bool" where
  "isinstance_TweepyException (Exn c m) = (c = TweepyException)"

fun str_exn :: "exn \<Rightarrow> string" where
  "str_exn (Exn c m) = m"

type_synonym ('a, 'w) io = "'w \<Rightarrow> (exn + 'a) \<times> 'w"

definition io_return :: "'a \<Rightarrow> ('a, 'w) io" where
  "io_return x w = (Inr x, w)"

definition io_raise :: "exn \<Rightarrow> ('a, 'w) io" where
  "io_raise e w = (Inl e, w)"

definition io_lift :: "exn + 'a \<Rightarrow> ('a, 'w) io" where
  "io_lift r w = (r, w)"

definition io_bind :: "('a, 'w) io \<Rightarrow> ('a \<Rightarrow> ('b, 'w) io) \<Rightarrow> ('b, 'w) io" where
  "io_bind m f w = (case m w of (Inl e, w') \<Rightarrow> (Inl e, w') | (Inr x, w') \<Rightarrow> f x w')"

text \<open>Errors the interpreter raises on a value of the wrong type.\<close>

definition quoted :: "string \<Rightarrow> string" where
  "quoted s = CHR 0x27 # s @ [CHR 0x27]"

definition no_attribute :: "json \<Rightarrow> string \<Rightarrow> exn" where
  "no_attribute j a =
     Exn AttributeError (quoted (py_type_name j) @ '' object has no attribute '' @ quoted a)"

definition not_subscriptable :: "json \<Rightarrow> exn" where
  "not_subscriptable j =
     Exn TypeError (quoted (py_type_name j) @ '' object is not subscriptable'')"

text \<open>\<^verbatim>\<open>j[key]\<close> with a string key.\<close>

definition getitem :: "json \<Rightarrow> string \<Rightarrow> exn + json" where
  "getitem j key =
     (case j of
        JObj kvs \<Rightarrow>
          (case map_of kvs key of None \<Rightarrow> Inl (Exn KeyError (quoted key)) | Some v \<Rightarrow> Inr v)
      | JArr xs \<Rightarrow> Inl (Exn TypeError ''list indices must be integers or slices, not str'')
      | JStr s \<Rightarrow> Inl (Exn TypeError ''string indices must be integers'')
      | _ \<Rightarrow> Inl (not_subscriptable j))"

section \<open>The outside world\<close>

text \<open>
  What the libraries and services give the program. A response of \<^verbatim>\<open>requests.get\<close>
  is the outcome of its two methods the program calls: \<^verbatim>\<open>raise_for_status()\<close> (the
  exception it raises, if any) and \<^verbatim>\<open>json()\<close>. The microblog client answers
  \<^verbatim>\<open>get_user\<close> with \<^verbatim>\<open>user.data\<close> (\<open>None\<close>: no such user) and \<^verbatim>\<open>get_users_tweets\<close>
  (user id, \<^verbatim>\<open>max_results\<close>; the other arguments are constants) with \<^verbatim>\<open>tweets.data\<close>.
  \<open>twitter_client\<close> is \<open>None\<close> when the client could not be built at import time.
  \<open>py_str\<close> is Python's \<^verbatim>\<open>str()\<close>, which the f-strings apply to a post's id.
  \<open>llm\<close> is the prompt template piped into the chat model, called with the two inputs
  of \<^verbatim>\<open>chain.invoke\<close>; \<open>parse_json_markdown\<close> is the decoding step of the output
  parser, and \<open>validation_error_text\<close> the text of the exception it raises for an
  object the schema rejects.
\<close>

record http_response =
  raise_for_status :: "exn option"
  response_json :: "exn + json"

record user =
  user_id :: int

record tweet =
  tweet_id :: int
  tweet_text :: string

record 'w twitter_client_ops =
  get_user :: "string \<Rightarrow> (user option, 'w) io"
  get_users_tweets :: "int \<Rightarrow> int \<Rightarrow> (tweet list option, 'w) io"

text \<open>A post as the fetchers return it: \<^verbatim>\<open>{"text": ..., "url": ...}\<close>.\<close>

record post =
  post_text :: json
  post_url :: string

text \<open>output_parsers.py: \<^verbatim>\<open>class Summary(BaseModel)\<close>.\<close>

record Summary =
  summary :: string
  facts :: "string list"

record 'w env =
  SCRAPIN_API_KEY :: "string option"
  requests_get :: "string \<Rightarrow> (string \<times> string) list \<Rightarrow> int \<Rightarrow> (http_response, 'w) io"
  twitter_client :: "'w twitter_client_ops option"
  py_str :: "json \<Rightarrow> string"
  linkedin_lookup_agent :: "string \<Rightarrow> (string, 'w) io"
  twitter_lookup_agent :: "string \<Rightarrow> (string, 'w) io"
  llm :: "dict \<Rightarrow> post list \<Rightarrow> (string, 'w) io"
  parse_json_markdown :: "string \<Rightarrow> exn + json"
  validation_error_text :: "json \<Rightarrow> string"

section \<open>third_parties/linkedin.py\<close>

subsection \<open>clean_profile_data\<close>

text \<open>
  \<^verbatim>\<open>
  excluded_fields = ["certifications"]
  empty_values = [[], "", None]
  cleaned_data = {
      key: value
      for key, value in data.items()
      if value not in empty_values and key not in excluded_fields
  }
  \<close>
  Membership in a Python list compares with \<^verbatim>\<open>==\<close>. Against \<^verbatim>\<open>[]\<close>, \<^verbatim>\<open>""\<close> and
  \<^verbatim>\<open>None\<close> a decoded value is equal exactly when it is that very value (\<^verbatim>\<open>0\<close>,
  \<^verbatim>\<open>False\<close> and \<^verbatim>\<open>{}\<close> are equal to none of the three), so \<^verbatim>\<open>==\<close> is the equality
  of \<^typ>\<open>json\<close> here.
\<close>

definition excluded_fields :: "string list" where
  "excluded_fields = [''certifications'']"

definition empty_values :: "json list" where
  "empty_values = [JArr [], JStr '''', JNull]"

definition clean_profile_data :: "dict \<Rightarrow> dict" where
  "clean_profile_data data =
     [(key, value) \<leftarrow> data. value \<notin> set empty_values \<and> key \<notin> set excluded_fields]"

subsection \<open>scrape_linkedin_profile\<close>

definition mock_data_url :: string where
  "mock_data_url =
     ''https://gist.githubusercontent.com/emarco177/'' @
     ''859ec7d786b45d8e3e3f688c6c9139d8/raw/'' @
     ''32f3c85b9513994c572613f2c8b376b633bfc43f/eden-marco-scrapin.json''"

definition api_endpoint :: string where
  "api_endpoint = ''https://api.scrapin.io/enrichment/profile''"

text \<open>\<^verbatim>\<open>json_data.get("person", {})\<close>: only a dict has \<^verbatim>\<open>get\<close>.\<close>

definition get_person :: "json \<Rightarrow> exn + json" where
  "get_person json_data =
     (case json_data of
        JObj kvs \<Rightarrow> Inr (case map_of kvs ''person'' of None \<Rightarrow> JObj [] | Some v \<Rightarrow> v)
      | _ \<Rightarrow> Inl (no_attribute json_data ''get''))"

text \<open>
  The call \<^verbatim>\<open>clean_profile_data(person_data)\<close> on whatever stands under
  \<^verbatim>\<open>"person"\<close>: only a dict has \<^verbatim>\<open>items\<close>.
\<close>

definition clean_profile_data_of :: "json \<Rightarrow> exn + dict" where
  "clean_profile_data_of person_data =
     (case person_data of
        JObj kvs \<Rightarrow> Inr (clean_profile_data kvs)
      | _ \<Rightarrow> Inl (no_attribute person_data ''items''))"

text \<open>
  The part of the \<^verbatim>\<open>try\<close> block after the request:
  \<^verbatim>\<open>
  response.raise_for_status()
  json_data = response.json()
  person_data = json_data.get("person", {})
  cleaned_data = clean_profile_data(person_data)
  return cleaned_data
  \<close>
\<close>

definition cleaned_data_of_response :: "http_response \<Rightarrow> exn + dict" where
  "cleaned_data_of_response response =
     (case raise_for_status response of
        Some e \<Rightarrow> Inl e
      | None \<Rightarrow>
          (case response_json response of
             Inl e \<Rightarrow> Inl e
           | Inr json_data \<Rightarrow>
               (case get_person json_data of
                  Inl e \<Rightarrow> Inl e
                | Inr person_data \<Rightarrow> clean_profile_data_of person_data)))"

text \<open>
  \<^verbatim>\<open>
  try:
      if mock:
          response = requests.get(mock_data_url, timeout=timeout)
      else:
          api_key = os.environ.get("SCRAPIN_API_KEY")
          if not api_key:
              return scrape_linkedin_profile(linkedin_profile_url, mock=True, timeout=timeout)
          params = {"apikey": api_key, "linkedInUrl": linkedin_profile_url}
          response = requests.get(api_endpoint, params=params, timeout=timeout)
      ...
  except requests.exceptions.RequestException as e:
      if not mock:
          return scrape_linkedin_profile(linkedin_profile_url, mock=True, timeout=timeout)
      raise
  except Exception as e:
      raise
  \<close>
  The scrutinee of the outer \<open>case\<close> is the \<^verbatim>\<open>try\<close> block, its two branches are the
  normal return and the handlers. Every recursive call has \<^verbatim>\<open>mock=True\<close>, and a call
  with \<^verbatim>\<open>mock=True\<close> makes none: that is the termination argument.
\<close>

function scrape_linkedin_profile ::
  "'w env \<Rightarrow> string \<Rightarrow> bool \<Rightarrow> int \<Rightarrow> (dict, 'w) io" where
  "scrape_linkedin_profile env linkedin_profile_url mock timeout w =
     (case
        (if mock then
           io_bind (requests_get env mock_data_url [] timeout)
             (\<lambda>response. io_lift (cleaned_data_of_response response)) w
         else
           (case SCRAPIN_API_KEY env of
              None \<Rightarrow> scrape_linkedin_profile env linkedin_profile_url True timeout w
            | Some api_key \<Rightarrow>
                if api_key = [] then
                  scrape_linkedin_profile env linkedin_profile_url True timeout w
                else
                  io_bind
                    (requests_get env api_endpoint
                       [(''apikey'', api_key), (''linkedInUrl'', linkedin_profile_url)]
                       timeout)
                    (\<lambda>response. io_lift (cleaned_data_of_response response)) w))
      of
        (Inr cleaned_data, w') \<Rightarrow> (Inr cleaned_data, w')
      | (Inl e, w') \<Rightarrow>
          if isinstance_RequestException e then
            (if \<not> mock then scrape_linkedin_profile env linkedin_profile_url True timeout w'
             else (Inl e, w'))
          else (Inl e, w'))"
  by pat_completeness auto
termination
  by (relation "measure (\<lambda>(env, url, mock, timeout, w). if mock then 0 else 1)") auto

declare scrape_linkedin_profile.simps [simp del]

section \<open>third_parties/twitter.py\<close>

text \<open>\<^verbatim>\<open>f"https://twitter.com/{username}/status/{tweet['id']}"\<close>\<close>

definition tweet_url :: "'w env \<Rightarrow> string \<Rightarrow> json \<Rightarrow> string" where
  "tweet_url env username tweet_id_value =
     ''https://twitter.com/'' @ username @ ''/status/'' @ py_str env tweet_id_value"

definition EDEN_TWITTER_GIST :: string where
  "EDEN_TWITTER_GIST =
     ''https://gist.githubusercontent.com/emarco177/'' @
     ''827323bb599553d0f0e662da07b9ff68/raw/'' @
     ''57bf38cf8acce0c87e060f9bb51f6ab72098fbd6/eden-marco-twitter.json''"

subsection \<open>scrape_user_tweets_mock\<close>

text \<open>
  The body of the loop:
  \<^verbatim>\<open>tweet_dict = {"text": tweet["text"], "url": f".../{username}/status/{tweet['id']}"}\<close>
\<close>

definition tweet_dict :: "'w env \<Rightarrow> string \<Rightarrow> json \<Rightarrow> exn + post" where
  "tweet_dict env username tweet =
     (case getitem tweet ''text'' of
        Inl e \<Rightarrow> Inl e
      | Inr t \<Rightarrow>
          (case getitem tweet ''id'' of
             Inl e \<Rightarrow> Inl e
           | Inr i \<Rightarrow> Inr \<lparr>post_text = t, post_url = tweet_url env username i\<rparr>))"

text \<open>
  The loop \<^verbatim>\<open>for tweet in ...: tweet_list.append(tweet_dict)\<close>, with the list built so
  far; an exception in the body ends it.
\<close>

fun tweet_list_of :: "'w env \<Rightarrow> string \<Rightarrow> json list \<Rightarrow> post list \<Rightarrow> exn + post list" where
  "tweet_list_of env username [] tweet_list = Inr tweet_list"
| "tweet_list_of env username (tweet # tweets) tweet_list =
     (case tweet_dict env username tweet of
        Inl e \<Rightarrow> Inl e
      | Inr d \<Rightarrow> tweet_list_of env username tweets (tweet_list @ [d]))"

text \<open>
  \<^verbatim>\<open>tweets_data[:num_tweets]\<close> and the elements the loop then visits. A string can be
  sliced and gives its characters; a dict cannot be sliced (a \<^verbatim>\<open>TypeError\<close> up to
  Python 3.11, a \<^verbatim>\<open>KeyError\<close> from 3.12: both are caught by the same handler).
\<close>

definition slice_to :: "json \<Rightarrow> int \<Rightarrow> exn + json list" where
  "slice_to tweets_data num_tweets =
     (case tweets_data of
        JArr xs \<Rightarrow> Inr (py_slice_to num_tweets xs)
      | JStr s \<Rightarrow> Inr (map (\<lambda>c. JStr [c]) (py_slice_to num_tweets s))
      | JObj kvs \<Rightarrow> Inl (Exn TypeError (''unhashable type: '' @ quoted ''slice''))
      | _ \<Rightarrow> Inl (not_subscriptable tweets_data))"

text \<open>
  The part of the \<^verbatim>\<open>try\<close> block after the request:
  \<^verbatim>\<open>
  response.raise_for_status()
  tweets_data = response.json()
  tweet_list = []
  for tweet in tweets_data[:num_tweets]: ...
  return tweet_list
  \<close>
\<close>

definition mock_tweet_list :: "'w env \<Rightarrow> string \<Rightarrow> int \<Rightarrow> http_response \<Rightarrow> exn + post list" where
  "mock_tweet_list env username num_tweets response =
     (case raise_for_status response of
        Some e \<Rightarrow> Inl e
      | None \<Rightarrow>
          (case response_json response of
             Inl e \<Rightarrow> Inl e
           | Inr tweets_data \<Rightarrow>
               (case slice_to tweets_data num_tweets of
                  Inl e \<Rightarrow> Inl e
                | Inr tweets \<Rightarrow> tweet_list_of env username tweets [])))"

text \<open>
  \<^verbatim>\<open>
  try:
      response = requests.get(EDEN_TWITTER_GIST, timeout=10)
      ...
  except Exception as e:
      return []
  \<close>
\<close>

definition scrape_user_tweets_mock :: "'w env \<Rightarrow> string \<Rightarrow> int \<Rightarrow> (post list, 'w) io" where
  "scrape_user_tweets_mock env username num_tweets w =
     (case io_bind (requests_get env EDEN_TWITTER_GIST [] 10)
             (\<lambda>response. io_lift (mock_tweet_list env username num_tweets response)) w
      of
        (Inr tweet_list, w') \<Rightarrow> (Inr tweet_list, w')
      | (Inl e, w') \<Rightarrow> (Inr [], w'))"

subsection \<open>scrape_user_tweets\<close>

text \<open>
  The \<^verbatim>\<open>try\<close> block of the live path:
  \<^verbatim>\<open>
  user = twitter_client.get_user(username=username)
  if not user.data:
      raise ValueError("User @" + username + " not found")
  user_id = user.data.id
  tweets = twitter_client.get_users_tweets(id=user_id, max_results=min(num_tweets, 100), ...)
  if not tweets.data:
      return []
  tweet_list = []
  for tweet in tweets.data[:num_tweets]:
      tweet_list.append({"text": tweet.text,
                         "url": f"https://twitter.com/{username}/status/{tweet.id}"})
  return tweet_list
  \<close>
\<close>

definition live_tweet_list ::
  "'w env \<Rightarrow> 'w twitter_client_ops \<Rightarrow> string \<Rightarrow> int \<Rightarrow> (post list, 'w) io" where
  "live_tweet_list env client username num_tweets =
     io_bind (get_user client username) (\<lambda>user_data.
       case user_data of
         None \<Rightarrow> io_raise (Exn ValueError (''User @'' @ username @ '' not found''))
       | Some u \<Rightarrow>
           io_bind (get_users_tweets client (user_id u) (min num_tweets 100)) (\<lambda>tweets_data.
             case tweets_data of
               None \<Rightarrow> io_return []
             | Some ts \<Rightarrow>
                 if ts = [] then io_return []
                 else io_return
                   (map (\<lambda>tweet. \<lparr>post_text = JStr (tweet_text tweet),
                                  post_url = tweet_url env username (JInt (tweet_id tweet))\<rparr>)
                      (py_slice_to num_tweets ts))))"

text \<open>
  \<^verbatim>\<open>
  if use_mock or not twitter_client:
      return scrape_user_tweets_mock(username, num_tweets)
  try:
      ...
  except tweepy.TweepyException as e:
      return scrape_user_tweets_mock(username, num_tweets)
  except Exception as e:
      return scrape_user_tweets_mock(username, num_tweets)
  \<close>
\<close>

definition scrape_user_tweets ::
  "'w env \<Rightarrow> string \<Rightarrow> int \<Rightarrow> bool \<Rightarrow> (post list, 'w) io" where
  "scrape_user_tweets env username num_tweets use_mock w =
     (case twitter_client env of
        None \<Rightarrow> scrape_user_tweets_mock env username num_tweets w
      | Some client \<Rightarrow>
          if use_mock then scrape_user_tweets_mock env username num_tweets w
          else
            (case live_tweet_list env client username num_tweets w of
               (Inr tweet_list, w') \<Rightarrow> (Inr tweet_list, w')
             | (Inl e, w') \<Rightarrow>
                 if isinstance_TweepyException e
                 then scrape_user_tweets_mock env username num_tweets w'
                 else scrape_user_tweets_mock env username num_tweets w'))"

section \<open>output_parsers.py\<close>

text \<open>
  \<^verbatim>\<open>
  class Summary(BaseModel):
      summary: str = Field(description=...)
      facts: List[str] = Field(description=...)
  summary_parser = PydanticOutputParser(pydantic_object=Summary)
  \<close>
  Both fields are required (no default) and carry no constraint but their type: the
  decoded object is accepted exactly when it is a dict with a string under
  \<^verbatim>\<open>"summary"\<close> and a list of strings under \<^verbatim>\<open>"facts"\<close> (other keys are ignored;
  a value of another type is not converted).
\<close>

fun str_items :: "json list \<Rightarrow> string list option" where
  "str_items [] = Some []"
| "str_items (JStr s # xs) = map_option ((#) s) (str_items xs)"
| "str_items (_ # xs) = None"

definition Summary_validate :: "json \<Rightarrow> Summary option" where
  "Summary_validate obj =
     (case obj of
        JObj kvs \<Rightarrow>
          (case map_of kvs ''summary'' of
             Some (JStr s) \<Rightarrow>
               (case map_of kvs ''facts'' of
                  Some (JArr xs) \<Rightarrow>
                    (case str_items xs of
                       Some fs \<Rightarrow> Some \<lparr>summary = s, facts = fs\<rparr>
                     | None \<Rightarrow> None)
                | _ \<Rightarrow> None)
           | _ \<Rightarrow> None)
      | _ \<Rightarrow> None)"

definition summary_parser :: "'w env \<Rightarrow> string \<Rightarrow> exn + Summary" where
  "summary_parser env text =
     (case parse_json_markdown env text of
        Inl e \<Rightarrow> Inl e
      | Inr obj \<Rightarrow>
          (case Summary_validate obj of
             None \<Rightarrow> Inl (Exn OutputParserException (validation_error_text env obj))
           | Some res \<Rightarrow> Inr res))"

text \<open>\<^verbatim>\<open>Summary.to_dict\<close>\<close>

definition to_dict :: "Summary \<Rightarrow> json" where
  "to_dict self =
     JObj [(''summary'', JStr (summary self)), (''facts'', JArr (map JStr (facts self)))]"

section \<open>ice_breaker.py\<close>

text \<open>
  \<^verbatim>\<open>
  linkedin_username = linkedin_lookup_agent(name=name)
  linkedin_data = scrape_linkedin_profile(linkedin_profile_url=linkedin_username)
  twitter_username = twitter_lookup_agent(name=name)
  tweets = scrape_user_tweets(username=twitter_username)
  ...
  chain = summary_prompt_template | llm | summary_parser
  res = chain.invoke({"information": linkedin_data, "twitter_posts": tweets})
  return res, linkedin_data.get("PhotoUrl")
  \<close>
  The fetchers are called with their defaults: \<^verbatim>\<open>mock=False\<close>, \<^verbatim>\<open>timeout=10\<close>,
  \<^verbatim>\<open>num_tweets=5\<close>, \<^verbatim>\<open>use_mock=False\<close>.
\<close>

definition ice_break_with :: "'w env \<Rightarrow> string \<Rightarrow> (Summary \<times> json option, 'w) io" where
  "ice_break_with env name =
     io_bind (linkedin_lookup_agent env name) (\<lambda>linkedin_username.
     io_bind (scrape_linkedin_profile env linkedin_username False 10) (\<lambda>linkedin_data.
     io_bind (twitter_lookup_agent env name) (\<lambda>twitter_username.
     io_bind (scrape_user_tweets env twitter_username 5 False) (\<lambda>tweets.
     io_bind (llm env linkedin_data tweets) (\<lambda>text.
     io_bind (io_lift (summary_parser env text)) (\<lambda>res.
     io_return (res, map_of linkedin_data ''PhotoUrl'')))))))"

section \<open>app.py\<close>

text \<open>
  \<^verbatim>\<open>
  try:
      name = request.form.get("name")
      if not name:
          return jsonify({"error": "Name parameter is required"}), 400
      summary_and_facts, profile_pic_url = ice_break_with(name=name)
      response = {"summary_and_facts": summary_and_facts.to_dict(),
                  "photoUrl": profile_pic_url or ""}
      return jsonify(response)
  except Exception as e:
      return jsonify({"error": "Failed to generate ice breaker content. Please try again.",
                      "details": str(e) if app.debug else None}), 500
  \<close>
  The form is the list of its fields (\<^verbatim>\<open>get\<close> returns the first value of a field);
  \<open>debug\<close> is \<^verbatim>\<open>app.debug\<close>.
\<close>

record response =
  status :: nat
  body :: json

definition name_required :: response where
  "name_required =
     \<lparr>status = 400, body = JObj [(''error'', JStr ''Name parameter is required'')]\<rparr>"

definition process :: "bool \<Rightarrow> 'w env \<Rightarrow> (string \<times> string) list \<Rightarrow> (response, 'w) io" where
  "process debug env form w =
     (case
        (case map_of form ''name'' of
           None \<Rightarrow> (Inr name_required, w)
         | Some name \<Rightarrow>
             if name = [] then (Inr name_required, w)
             else
               io_bind (ice_break_with env name) (\<lambda>(summary_and_facts, profile_pic_url).
                 io_return
                   \<lparr>status = 200,
                    body = JObj [(''summary_and_facts'', to_dict summary_and_facts),
                                 (''photoUrl'', py_or profile_pic_url (JStr ''''))]\<rparr>) w)
      of
        (Inr r, w') \<Rightarrow> (Inr r, w')
      | (Inl e, w') \<Rightarrow>
          (Inr \<lparr>status = 500,
                body = JObj [(''error'',
                                JStr ''Failed to generate ice breaker content. Please try again.''),
                             (''details'', if debug then JStr (str_exn e) else JNull)]\<rparr>, w'))"

section \<open>A concrete outside world\<close>

text \<open>
  The state of this world counts the calls that left the process. The enrichment
  service answers \<open>live\<close>, the posts fixture answers \<open>gist\<close>, the profile fixture holds
  the Jane Doe record, the microblog service knows no user, and the language model's
  reply decodes to \<open>obj\<close>.
\<close>

definition jane_doe :: dict where
  "jane_doe =
     [(''fullName'', JStr ''Jane Doe''), (''headline'', JStr ''Engineer''),
      (''certifications'', JArr [JStr ''X'']), (''summary'', JStr '''')]"

definition ok_response :: "json \<Rightarrow> http_response" where
  "ok_response j = \<lparr>raise_for_status = None, response_json = Inr j\<rparr>"

definition profile_fixture :: json where
  "profile_fixture = JObj [(''success'', JBool True), (''person'', JObj jane_doe)]"

definition tweets_fixture :: json where
  "tweets_fixture =
     JArr [JObj [(''id'', JStr ''101''), (''text'', JStr ''Hello'')],
           JObj [(''id'', JStr ''102''), (''text'', JStr ''LangChain'')],
           JObj [(''text'', JStr ''Agents''), (''id'', JStr ''103'')],
           JObj [(''id'', JStr ''104''), (''text'', JStr ''RAG'')]]"

definition connection_error :: exn where
  "connection_error = Exn RequestException ''Connection refused''"

definition no_user_client :: "nat twitter_client_ops" where
  "no_user_client =
     \<lparr>get_user = (\<lambda>username w. (Inr None, Suc w)),
      get_users_tweets = (\<lambda>uid max_results w. (Inr None, Suc w))\<rparr>"

definition demo_env :: "exn + http_response \<Rightarrow> exn + http_response \<Rightarrow> json \<Rightarrow> nat env" where
  "demo_env live gist obj =
     \<lparr>SCRAPIN_API_KEY = Some ''secret'',
      requests_get = (\<lambda>url params timeout w.
        (if url = api_endpoint then live
         else if url = mock_data_url then Inr (ok_response profile_fixture)
         else gist, Suc w)),
      twitter_client = Some no_user_client,
      py_str = (\<lambda>j. case j of JStr s \<Rightarrow> s | _ \<Rightarrow> ''?''),
      linkedin_lookup_agent = (\<lambda>name w. (Inr ''https://www.linkedin.com/in/jane-doe/'', Suc w)),
      twitter_lookup_agent = (\<lambda>name w. (Inr ''janedoe'', Suc w)),
      llm = (\<lambda>information twitter_posts w. (Inr ''reply'', Suc w)),
      parse_json_markdown = (\<lambda>text. Inr obj),
      validation_error_text = (\<lambda>obj. ''Failed to parse Summary from completion'')\<rparr>"

definition valid_summary :: json where
  "valid_summary =
     JObj [(''summary'', JStr ''Jane Doe is an engineer.''),
           (''facts'', JArr [JStr ''She writes about agents.'', JStr ''She builds RAG systems.''])]"

definition empty_summary :: json where
  "empty_summary = JObj [(''summary'', JStr ''''), (''facts'', JArr [])]"

definition summary_only :: json where
  "summary_only = JObj [(''summary'', JStr ''Jane Doe is an engineer.'')]"

text \<open>
  Further answers of the outside world. A body that is not JSON makes \<^verbatim>\<open>response.json()\<close>
  raise \<^verbatim>\<open>requests.exceptions.JSONDecodeError\<close> and an error status makes
  \<^verbatim>\<open>raise_for_status()\<close> raise \<^verbatim>\<open>requests.exceptions.HTTPError\<close>: both are instances of
  \<^verbatim>\<open>RequestException\<close>. \<open>not_found_env\<close> answers every request with status 200 and the
  document \<^verbatim>\<open>{"message": "Not Found"}\<close>; in \<open>no_posts_env\<close> the microblog service knows
  the user and reports no posts.
\<close>

definition json_decode_error :: exn where
  "json_decode_error = Exn RequestException ''Expecting value: line 1 column 1 (char 0)''"

definition malformed_json_response :: http_response where
  "malformed_json_response = \<lparr>raise_for_status = None, response_json = Inl json_decode_error\<rparr>"

definition http_error :: exn where
  "http_error = Exn RequestException ''500 Server Error: Internal Server Error''"

definition server_error_response :: http_response where
  "server_error_response = \<lparr>raise_for_status = Some http_error, response_json = Inr JNull\<rparr>"

definition empty_text_fixture :: json where
  "empty_text_fixture =
     JArr [JObj [(''id'', JStr ''201''), (''text'', JStr '''')],
           JObj [(''id'', JStr ''202''), (''text'', JNull)],
           JObj [(''id'', JStr ''203''), (''text'', JStr ''Hello'')]]"





section \<open>Properties of clean_profile_data\<close>

lemma clean_profile_data_filter:
  "clean_profile_data data =
     filter (\<lambda>(key, value). value \<noteq> JArr [] \<and> value \<noteq> JStr '''' \<and> value \<noteq> JNull
                              \<and> key \<noteq> ''certifications'') data"
  unfolding clean_profile_data_def empty_values_def excluded_fields_def
  by (rule filter_cong) auto

lemma clean_profile_data_Nil: "clean_profile_data [] = []"
  by (simp add: clean_profile_data_def)

lemma clean_profile_data_distinct:
  "distinct (map fst data) \<Longrightarrow> distinct (map fst (clean_profile_data data))"
  by (simp add: clean_profile_data_def distinct_map_filter)

text \<open>
  C2. Cleaning removes exactly the entries whose value is the empty list, the empty
  string or null and the entries under the key \<^verbatim>\<open>certifications\<close>: the entries of the
  result are the other entries of the input, in the input's order, each unchanged, and a
  dict (every key once) stays a dict. On the record
  \<^verbatim>\<open>{"fullName": "Jane Doe", "headline": "Engineer", "certifications": ["X"], "summary": ""}\<close>
  the result is exactly \<^verbatim>\<open>{"fullName": "Jane Doe", "headline": "Engineer"}\<close>.
\<close>

theorem clean_profile_data_exact:
  "set (clean_profile_data data) =
     {(key, value). (key, value) \<in> set data \<and> value \<noteq> JArr [] \<and> value \<noteq> JStr ''''
                     \<and> value \<noteq> JNull \<and> key \<noteq> ''certifications''}
   \<and> subseq (clean_profile_data data) data
   \<and> (distinct (map fst data) \<longrightarrow>
        distinct (map fst (clean_profile_data data))
        \<and> (\<forall>key. map_of (clean_profile_data data) key =
              (case map_of data key of
                 None \<Rightarrow> None
               | Some value \<Rightarrow>
                   if value = JArr [] \<or> value = JStr '''' \<or> value = JNull
                      \<or> key = ''certifications''
                   then None else Some value)))
   \<and> clean_profile_data jane_doe =
        [(''fullName'', JStr ''Jane Doe''), (''headline'', JStr ''Engineer'')]"
proof (intro conjI impI allI)
  show "set (clean_profile_data data) =
     {(key, value). (key, value) \<in> set data \<and> value \<noteq> JArr [] \<and> value \<noteq> JStr ''''
                     \<and> value \<noteq> JNull \<and> key \<noteq> ''certifications''}"
    by (auto simp: clean_profile_data_filter)
  show "subseq (clean_profile_data data) data"
    by (simp add: clean_profile_data_filter)
  show "clean_profile_data jane_doe =
        [(''fullName'', JStr ''Jane Doe''), (''headline'', JStr ''Engineer'')]"
    by (simp add: clean_profile_data_filter jane_doe_def)
next
  assume d: "distinct (map fst data)"
  then show "distinct (map fst (clean_profile_data data))"
    by (rule clean_profile_data_distinct)
  fix key
  show "map_of (clean_profile_data data) key =
          (case map_of data key of
             None \<Rightarrow> None
           | Some value \<Rightarrow>
               if value = JArr [] \<or> value = JStr '''' \<or> value = JNull
                  \<or> key = ''certifications''
               then None else Some value)"
    using d
  proof (induction data)
    case Nil
    then show ?case by (simp add: clean_profile_data_filter)
  next
    case (Cons kv data)
    obtain k v where kv: "kv = (k, v)" by (cases kv)
    from Cons.prems kv have notin: "k \<notin> fst ` set data" and d': "distinct (map fst data)"
      by auto
    from notin have none: "map_of data k = None"
      by (simp add: map_of_eq_None_iff)
    from notin have none': "map_of (clean_profile_data data) k = None"
      by (auto simp: map_of_eq_None_iff clean_profile_data_filter)
    show ?case
      using Cons.IH [OF d'] none none' kv
      by (auto simp: clean_profile_data_filter split: option.splits)
  qed
qed

theorem clean_profile_data_exact_witness:
  "distinct (map fst jane_doe)
   \<and> map_of (clean_profile_data jane_doe) ''headline'' = Some (JStr ''Engineer'')
   \<and> map_of (clean_profile_data jane_doe) ''certifications'' = None
   \<and> map_of (clean_profile_data jane_doe) ''summary'' = None
   \<and> clean_profile_data jane_doe =
        [(''fullName'', JStr ''Jane Doe''), (''headline'', JStr ''Engineer'')]"
proof -
  have d: "distinct (map fst jane_doe)"
    by (simp add: jane_doe_def)
  have m: "map_of jane_doe ''headline'' = Some (JStr ''Engineer'')"
    "map_of jane_doe ''certifications'' = Some (JArr [JStr ''X''])"
    "map_of jane_doe ''summary'' = Some (JStr '''')"
    by (simp_all add: jane_doe_def)
  from clean_profile_data_exact [of jane_doe] d
  have a: "\<forall>key. map_of (clean_profile_data jane_doe) key =
              (case map_of jane_doe key of
                 None \<Rightarrow> None
               | Some value \<Rightarrow>
                   if value = JArr [] \<or> value = JStr '''' \<or> value = JNull
                      \<or> key = ''certifications''
                   then None else Some value)"
    and e: "clean_profile_data jane_doe =
        [(''fullName'', JStr ''Jane Doe''), (''headline'', JStr ''Engineer'')]"
    by blast+
  show ?thesis
    using d e a [rule_format, of "''headline''"] a [rule_format, of "''certifications''"]
      a [rule_format, of "''summary''"] m
    by simp
qed

text \<open>
  C6. Cleaning is idempotent: cleaning a cleaned record changes nothing.
\<close>

theorem clean_profile_data_idempotent:
  "clean_profile_data (clean_profile_data data) = clean_profile_data data"
  by (simp add: clean_profile_data_def)

section \<open>The concrete world, evaluated\<close>

lemma url_distinct:
  "api_endpoint \<noteq> mock_data_url" "EDEN_TWITTER_GIST \<noteq> api_endpoint"
  "EDEN_TWITTER_GIST \<noteq> mock_data_url"
  by (simp_all add: api_endpoint_def mock_data_url_def EDEN_TWITTER_GIST_def)

lemma demo_env_simps:
  "SCRAPIN_API_KEY (demo_env live gist obj) = Some ''secret''"
  "requests_get (demo_env live gist obj) api_endpoint params timeout w = (live, Suc w)"
  "requests_get (demo_env live gist obj) mock_data_url params timeout w =
     (Inr (ok_response profile_fixture), Suc w)"
  "requests_get (demo_env live gist obj) EDEN_TWITTER_GIST params timeout w = (gist, Suc w)"
  "twitter_client (demo_env live gist obj) = Some no_user_client"
  "py_str (demo_env live gist obj) (JStr s) = s"
  "linkedin_lookup_agent (demo_env live gist obj) name w =
     (Inr ''https://www.linkedin.com/in/jane-doe/'', Suc w)"
  "twitter_lookup_agent (demo_env live gist obj) name w = (Inr ''janedoe'', Suc w)"
  "llm (demo_env live gist obj) information twitter_posts w = (Inr ''reply'', Suc w)"
  "parse_json_markdown (demo_env live gist obj) text = Inr obj"
  "validation_error_text (demo_env live gist obj) j = ''Failed to parse Summary from completion''"
  using url_distinct by (simp_all add: demo_env_def)

lemma cleaned_data_of_profile_fixture:
  "cleaned_data_of_response (ok_response profile_fixture) =
     Inr [(''fullName'', JStr ''Jane Doe''), (''headline'', JStr ''Engineer'')]"
  by (simp add: cleaned_data_of_response_def ok_response_def profile_fixture_def get_person_def
      clean_profile_data_of_def clean_profile_data_filter jane_doe_def)

section \<open>The professional-network fetcher\<close>

text \<open>The fixture path: one request, and whatever it raises is raised.\<close>

lemma scrape_linkedin_profile_mock:
  "scrape_linkedin_profile env url True timeout w =
     (case requests_get env mock_data_url [] timeout w of
        (Inl e, w') \<Rightarrow> (Inl e, w')
      | (Inr response, w') \<Rightarrow> (cleaned_data_of_response response, w'))"
  by (subst scrape_linkedin_profile.simps)
     (simp add: io_bind_def io_lift_def split: prod.splits sum.splits)

text \<open>The live path, with a credential.\<close>

lemma scrape_linkedin_profile_live:
  assumes "SCRAPIN_API_KEY env = Some api_key" and "api_key \<noteq> []"
  shows "scrape_linkedin_profile env url False timeout w =
     (case io_bind
             (requests_get env api_endpoint
                [(''apikey'', api_key), (''linkedInUrl'', url)] timeout)
             (\<lambda>response. io_lift (cleaned_data_of_response response)) w
      of
        (Inr cleaned_data, w') \<Rightarrow> (Inr cleaned_data, w')
      | (Inl e, w') \<Rightarrow>
          if isinstance_RequestException e
          then scrape_linkedin_profile env url True timeout w'
          else (Inl e, w'))"
  using assms
  by (subst scrape_linkedin_profile.simps) (simp split: prod.splits sum.splits)



text \<open>
  C3, as the code has it. With \<^verbatim>\<open>mock=False\<close> and a credential, the handler tests the
  class of the exception, not the place it came from. Every \<^verbatim>\<open>RequestException\<close> of the
  live attempt leads to one attempt on the fixture path, made in the world the failure
  left, whose own failure is raised and not retried: a transport failure of the request,
  and also, after a response was received, an error status (\<^verbatim>\<open>raise_for_status()\<close>) and a
  body that does not decode (\<^verbatim>\<open>response.json()\<close>). An exception that is not a
  \<^verbatim>\<open>RequestException\<close> (a decoded body that is not an object has no \<^verbatim>\<open>get\<close>) is raised
  to the caller with no fallback, and a live attempt that succeeds is returned as it is.
\<close>

theorem linkedin_fallback_on_every_request_exception:
  assumes key: "SCRAPIN_API_KEY env = Some api_key" "api_key \<noteq> []"
  shows
    "(\<forall>e w1. requests_get env api_endpoint
                [(''apikey'', api_key), (''linkedInUrl'', url)] timeout w = (Inl e, w1)
             \<and> isinstance_RequestException e \<longrightarrow>
        scrape_linkedin_profile env url False timeout w =
          (case requests_get env mock_data_url [] timeout w1 of
             (Inl e', w2) \<Rightarrow> (Inl e', w2)
           | (Inr response, w2) \<Rightarrow> (cleaned_data_of_response response, w2)))
   \<and> (\<forall>response e w1. requests_get env api_endpoint
                [(''apikey'', api_key), (''linkedInUrl'', url)] timeout w = (Inr response, w1)
             \<and> raise_for_status response = Some e
             \<and> isinstance_RequestException e \<longrightarrow>
        scrape_linkedin_profile env url False timeout w =
          (case requests_get env mock_data_url [] timeout w1 of
             (Inl e', w2) \<Rightarrow> (Inl e', w2)
           | (Inr response, w2) \<Rightarrow> (cleaned_data_of_response response, w2)))
   \<and> (\<forall>response e w1. requests_get env api_endpoint
                [(''apikey'', api_key), (''linkedInUrl'', url)] timeout w = (Inr response, w1)
             \<and> raise_for_status response = None \<and> response_json response = Inl e
             \<and> isinstance_RequestException e \<longrightarrow>
        scrape_linkedin_profile env url False timeout w =
          (case requests_get env mock_data_url [] timeout w1 of
             (Inl e', w2) \<Rightarrow> (Inl e', w2)
           | (Inr response, w2) \<Rightarrow> (cleaned_data_of_response response, w2)))
   \<and> (\<forall>e w1. requests_get env api_endpoint
                [(''apikey'', api_key), (''linkedInUrl'', url)] timeout w = (Inl e, w1)
             \<and> \<not> isinstance_RequestException e \<longrightarrow>
        scrape_linkedin_profile env url False timeout w = (Inl e, w1))
   \<and> (\<forall>response e w1. requests_get env api_endpoint
                [(''apikey'', api_key), (''linkedInUrl'', url)] timeout w = (Inr response, w1)
             \<and> cleaned_data_of_response response = Inl e
             \<and> \<not> isinstance_RequestException e \<longrightarrow>
        scrape_linkedin_profile env url False timeout w = (Inl e, w1))
   \<and> (\<forall>response j w1. requests_get env api_endpoint
                [(''apikey'', api_key), (''linkedInUrl'', url)] timeout w = (Inr response, w1)
             \<and> raise_for_status response = None \<and> response_json response = Inr j
             \<and> (\<forall>kvs. j \<noteq> JObj kvs) \<longrightarrow>
        scrape_linkedin_profile env url False timeout w = (Inl (no_attribute j ''get''), w1))
   \<and> (\<forall>response cleaned_data w1. requests_get env api_endpoint
                [(''apikey'', api_key), (''linkedInUrl'', url)] timeout w = (Inr response, w1)
             \<and> cleaned_data_of_response response = Inr cleaned_data \<longrightarrow>
        scrape_linkedin_profile env url False timeout w = (Inr cleaned_data, w1))"
proof -
  have wrong_shape: "get_person j = Inl (no_attribute j ''get'')" if "\<forall>kvs. j \<noteq> JObj kvs" for j
    using that by (cases j) (simp_all add: get_person_def)
  show ?thesis
    by (auto simp: scrape_linkedin_profile_live [OF key] scrape_linkedin_profile_mock
        io_bind_def io_lift_def cleaned_data_of_response_def no_attribute_def wrong_shape)
qed

theorem linkedin_fallback_witness:
  "scrape_linkedin_profile (demo_env (Inl connection_error) (Inl connection_error) JNull)
     ''https://www.linkedin.com/in/jane-doe/'' False 10 0 =
     (Inr [(''fullName'', JStr ''Jane Doe''), (''headline'', JStr ''Engineer'')], 2)
   \<and> scrape_linkedin_profile
       (demo_env (Inr server_error_response) (Inl connection_error) JNull)
       ''https://www.linkedin.com/in/jane-doe/'' False 10 0 =
     (Inr [(''fullName'', JStr ''Jane Doe''), (''headline'', JStr ''Engineer'')], 2)
   \<and> scrape_linkedin_profile
       (demo_env (Inr (ok_response (JArr []))) (Inl connection_error) JNull)
       ''https://www.linkedin.com/in/jane-doe/'' False 10 0 =
     (Inl (no_attribute (JArr []) ''get''), 1)"
proof -
  let ?url = "''https://www.linkedin.com/in/jane-doe/''"
  let ?env = "demo_env (Inl connection_error) (Inl connection_error) JNull"
  let ?env500 = "demo_env (Inr server_error_response) (Inl connection_error) JNull"
  let ?env' = "demo_env (Inr (ok_response (JArr []))) (Inl connection_error) JNull"
  have key: "SCRAPIN_API_KEY ?env = Some ''secret''" "SCRAPIN_API_KEY ?env500 = Some ''secret''"
    "SCRAPIN_API_KEY ?env' = Some ''secret''" "''secret'' \<noteq> []"
    by (simp_all add: demo_env_simps)
  have live: "requests_get ?env api_endpoint
                [(''apikey'', ''secret''), (''linkedInUrl'', ?url)] 10 0 = (Inl connection_error, 1)
              \<and> isinstance_RequestException connection_error"
    by (simp add: demo_env_simps connection_error_def)
  have live500: "requests_get ?env500 api_endpoint
                [(''apikey'', ''secret''), (''linkedInUrl'', ?url)] 10 0
                  = (Inr server_error_response, 1)
              \<and> raise_for_status server_error_response = Some http_error
              \<and> isinstance_RequestException http_error"
    by (simp add: demo_env_simps server_error_response_def http_error_def)
  have live': "requests_get ?env' api_endpoint
                [(''apikey'', ''secret''), (''linkedInUrl'', ?url)] 10 0
                  = (Inr (ok_response (JArr [])), 1)
              \<and> raise_for_status (ok_response (JArr [])) = None
              \<and> response_json (ok_response (JArr [])) = Inr (JArr [])
              \<and> (\<forall>kvs. JArr [] \<noteq> JObj kvs)"
    by (simp add: demo_env_simps ok_response_def)
  from linkedin_fallback_on_every_request_exception [OF key(1) key(4), of ?url 10 0] live
  have a: "scrape_linkedin_profile ?env ?url False 10 0 =
          (case requests_get ?env mock_data_url [] 10 1 of
             (Inl e', w2) \<Rightarrow> (Inl e', w2)
           | (Inr response, w2) \<Rightarrow> (cleaned_data_of_response response, w2))"
    by blast
  from linkedin_fallback_on_every_request_exception [OF key(2) key(4), of ?url 10 0] live500
  have b: "scrape_linkedin_profile ?env500 ?url False 10 0 =
          (case requests_get ?env500 mock_data_url [] 10 1 of
             (Inl e', w2) \<Rightarrow> (Inl e', w2)
           | (Inr response, w2) \<Rightarrow> (cleaned_data_of_response response, w2))"
    by blast
  from linkedin_fallback_on_every_request_exception [OF key(3) key(4), of ?url 10 0] live'
  have c: "scrape_linkedin_profile ?env' ?url False 10 0 = (Inl (no_attribute (JArr []) ''get''), 1)"
    by blast
  show ?thesis
    using a b c by (simp add: demo_env_simps cleaned_data_of_profile_fixture)
qed

text \<open>
  The claim C3 as the specification words it has malformed JSON after a successful
  response raised to the caller. The enrichment service answers with a good status and a
  body that does not decode; \<^verbatim>\<open>response.json()\<close> raises inside the \<^verbatim>\<open>try\<close> block, the
  exception is a \<^verbatim>\<open>RequestException\<close>, and the fetcher returns the fixture's profile
  after a second request: nothing is raised.
\<close>

theorem linkedin_malformed_json_falls_back:
  "raise_for_status malformed_json_response = None
   \<and> response_json malformed_json_response = Inl json_decode_error
   \<and> scrape_linkedin_profile
       (demo_env (Inr malformed_json_response) (Inl connection_error) JNull)
       ''https://www.linkedin.com/in/jane-doe/'' False 10 0 =
     (Inr [(''fullName'', JStr ''Jane Doe''), (''headline'', JStr ''Engineer'')], 2)"
  by (simp add: scrape_linkedin_profile_live [where api_key = "''secret''"]
      scrape_linkedin_profile_mock demo_env_simps io_bind_def io_lift_def
      malformed_json_response_def json_decode_error_def cleaned_data_of_response_def
      cleaned_data_of_profile_fixture [unfolded cleaned_data_of_response_def])

text \<open>
  C10. When the response that is used (the fixture's with \<^verbatim>\<open>mock=True\<close>, the enrichment
  service's with \<^verbatim>\<open>mock=False\<close> and a credential) passes the status check and decodes
  to a JSON object with no \<^verbatim>\<open>"person"\<close> key, \<^verbatim>\<open>get\<close> puts the empty dict in its place
  and the fetcher returns the empty dict: nothing is raised.
\<close>

theorem linkedin_missing_person_key:
  assumes fetched:
    "(mock \<and> requests_get env mock_data_url [] timeout w = (Inr response, w'))
     \<or> (\<not> mock \<and> SCRAPIN_API_KEY env = Some api_key \<and> api_key \<noteq> []
         \<and> requests_get env api_endpoint
              [(''apikey'', api_key), (''linkedInUrl'', url)] timeout w = (Inr response, w'))"
    and ok: "raise_for_status response = None"
    and parsed: "response_json response = Inr (JObj kvs)"
    and no_person: "map_of kvs ''person'' = None"
  shows "get_person (JObj kvs) = Inr (JObj [])
         \<and> scrape_linkedin_profile env url mock timeout w = (Inr [], w')"
proof -
  have g: "get_person (JObj kvs) = Inr (JObj [])"
    using no_person by (simp add: get_person_def)
  have c: "cleaned_data_of_response response = Inr []"
    using ok parsed g
    by (simp add: cleaned_data_of_response_def clean_profile_data_of_def clean_profile_data_Nil)
  from fetched show ?thesis
  proof
    assume "mock \<and> requests_get env mock_data_url [] timeout w = (Inr response, w')"
    then show ?thesis
      using c g by (simp add: scrape_linkedin_profile_mock)
  next
    assume "\<not> mock \<and> SCRAPIN_API_KEY env = Some api_key \<and> api_key \<noteq> []
         \<and> requests_get env api_endpoint
              [(''apikey'', api_key), (''linkedInUrl'', url)] timeout w = (Inr response, w')"
    then show ?thesis
      using c g by (simp add: scrape_linkedin_profile_live io_bind_def io_lift_def)
  qed
qed

theorem linkedin_missing_person_key_witness:
  "scrape_linkedin_profile
     (demo_env (Inr (ok_response (JObj [(''success'', JBool False)]))) (Inl connection_error) JNull)
     ''https://www.linkedin.com/in/jane-doe/'' False 10 0 = (Inr [], 1)"
proof -
  let ?r = "ok_response (JObj [(''success'', JBool False)])"
  let ?env = "demo_env (Inr ?r) (Inl connection_error) JNull"
  let ?url = "''https://www.linkedin.com/in/jane-doe/''"
  have "(False \<and> requests_get ?env mock_data_url [] 10 0 = (Inr ?r, 1))
     \<or> (\<not> False \<and> SCRAPIN_API_KEY ?env = Some ''secret'' \<and> ''secret'' \<noteq> []
         \<and> requests_get ?env api_endpoint
              [(''apikey'', ''secret''), (''linkedInUrl'', ?url)] 10 0 = (Inr ?r, 1))"
    by (simp add: demo_env_simps)
  moreover have "raise_for_status ?r = None"
    "response_json ?r = Inr (JObj [(''success'', JBool False)])"
    "map_of [(''success'', JBool False)] ''person'' = None"
    by (simp_all add: ok_response_def)
  ultimately show ?thesis
    using linkedin_missing_person_key [of False ?env 10 0 ?r 1 "''secret''" ?url
        "[(''success'', JBool False)]"]
    by blast
qed

section \<open>The microblog fetcher\<close>

lemma scrape_user_tweets_mock_returns:
  "\<exists>tweet_list w'. scrape_user_tweets_mock env username num_tweets w = (Inr tweet_list, w')"
  by (simp add: scrape_user_tweets_mock_def split: prod.splits sum.splits)

lemma scrape_user_tweets_mock_fetch:
  "scrape_user_tweets_mock env username num_tweets w =
     (case requests_get env EDEN_TWITTER_GIST [] 10 w of
        (Inl e, w') \<Rightarrow> (Inr [], w')
      | (Inr response, w') \<Rightarrow>
          (case mock_tweet_list env username num_tweets response of
             Inl e \<Rightarrow> (Inr [], w')
           | Inr tweet_list \<Rightarrow> (Inr tweet_list, w')))"
  by (simp add: scrape_user_tweets_mock_def io_bind_def io_lift_def split: prod.splits sum.splits)

text \<open>What makes the live path raise.\<close>

lemma live_tweet_list_user_not_found:
  "get_user client username w = (Inr None, w') \<Longrightarrow>
   live_tweet_list env client username num_tweets w =
     (Inl (Exn ValueError (''User @'' @ username @ '' not found'')), w')"
  by (simp add: live_tweet_list_def io_bind_def io_raise_def)

lemma live_tweet_list_get_user_raises:
  "get_user client username w = (Inl e, w') \<Longrightarrow>
   live_tweet_list env client username num_tweets w = (Inl e, w')"
  by (simp add: live_tweet_list_def io_bind_def)

lemma live_tweet_list_get_users_tweets_raises:
  "get_user client username w = (Inr (Some u), w1) \<Longrightarrow>
   get_users_tweets client (user_id u) (min num_tweets 100) w1 = (Inl e, w') \<Longrightarrow>
   live_tweet_list env client username num_tweets w = (Inl e, w')"
  by (simp add: live_tweet_list_def io_bind_def)

text \<open>The live path builds each url from the handle it was called with.\<close>

lemma live_tweet_list_posts:
  assumes "get_user client username w = (Inr (Some u), w1)"
    and "get_users_tweets client (user_id u) (min num_tweets 100) w1 = (Inr (Some ts), w')"
    and "ts \<noteq> []"
  shows "live_tweet_list env client username num_tweets w =
     (Inr (map (\<lambda>tweet. \<lparr>post_text = JStr (tweet_text tweet),
                          post_url = ''https://twitter.com/'' @ username @ ''/status/''
                                       @ py_str env (JInt (tweet_id tweet))\<rparr>)
             (py_slice_to num_tweets ts)), w')"
  using assms by (simp add: live_tweet_list_def io_bind_def io_return_def tweet_url_def)

text \<open>
  C4. Whatever exception the live path raises (the client's, the \<^verbatim>\<open>ValueError\<close> for a
  user that is not found, any other), \<^verbatim>\<open>scrape_user_tweets\<close> raises nothing: it returns
  what \<^verbatim>\<open>scrape_user_tweets_mock\<close> returns for the same handle and count, called in the
  world the failed attempt left.
\<close>

theorem scrape_user_tweets_fallback:
  assumes client: "twitter_client env = Some client"
    and raised: "live_tweet_list env client username num_tweets w = (Inl e, w')"
  shows "scrape_user_tweets env username num_tweets False w =
           scrape_user_tweets_mock env username num_tweets w'
         \<and> (\<exists>tweet_list w''.
               scrape_user_tweets env username num_tweets False w = (Inr tweet_list, w''))"
proof -
  have "scrape_user_tweets env username num_tweets False w =
           scrape_user_tweets_mock env username num_tweets w'"
    using client raised by (simp add: scrape_user_tweets_def)
  then show ?thesis
    using scrape_user_tweets_mock_returns [of env username num_tweets w'] by simp
qed

lemma mock_tweet_list_fixture:
  "mock_tweet_list (demo_env live gist obj) username 3 (ok_response tweets_fixture) =
     Inr [\<lparr>post_text = JStr ''Hello'',
            post_url = ''https://twitter.com/'' @ username @ ''/status/101''\<rparr>,
          \<lparr>post_text = JStr ''LangChain'',
            post_url = ''https://twitter.com/'' @ username @ ''/status/102''\<rparr>,
          \<lparr>post_text = JStr ''Agents'',
            post_url = ''https://twitter.com/'' @ username @ ''/status/103''\<rparr>]"
  by (simp add: mock_tweet_list_def ok_response_def tweets_fixture_def slice_to_def
      py_slice_to_def tweet_dict_def getitem_def tweet_url_def demo_env_simps)

theorem scrape_user_tweets_fallback_witness:
  "scrape_user_tweets (demo_env (Inl connection_error) (Inr (ok_response tweets_fixture)) JNull)
     ''janedoe'' 3 False 0 =
   (Inr [\<lparr>post_text = JStr ''Hello'', post_url = ''https://twitter.com/janedoe/status/101''\<rparr>,
         \<lparr>post_text = JStr ''LangChain'', post_url = ''https://twitter.com/janedoe/status/102''\<rparr>,
         \<lparr>post_text = JStr ''Agents'', post_url = ''https://twitter.com/janedoe/status/103''\<rparr>],
    2)"
proof -
  let ?env = "demo_env (Inl connection_error) (Inr (ok_response tweets_fixture)) JNull"
  have c: "twitter_client ?env = Some no_user_client"
    by (simp add: demo_env_simps)
  have r: "live_tweet_list ?env no_user_client ''janedoe'' 3 0 =
             (Inl (Exn ValueError (''User @'' @ ''janedoe'' @ '' not found'')), 1)"
    by (rule live_tweet_list_user_not_found) (simp add: no_user_client_def)
  from scrape_user_tweets_fallback [OF c r]
  have "scrape_user_tweets ?env ''janedoe'' 3 False 0 = scrape_user_tweets_mock ?env ''janedoe'' 3 1"
    by blast
  then show ?thesis
    by (simp add: scrape_user_tweets_mock_fetch demo_env_simps mock_tweet_list_fixture)
qed

lemma tweet_list_of_append:
  "tweet_list_of env username tweets acc =
     (case tweet_list_of env username tweets [] of Inl e \<Rightarrow> Inl e | Inr ds \<Rightarrow> Inr (acc @ ds))"
proof (induction tweets arbitrary: acc)
  case Nil
  show ?case by simp
next
  case (Cons tweet tweets)
  show ?case
    by (simp add: Cons.IH [of "acc @ _"] Cons.IH [of "[_]"] split: sum.splits)
qed

lemma tweet_list_of_well_formed:
  assumes "\<forall>tweet \<in> set tweets. \<exists>t i. getitem tweet ''text'' = Inr t \<and> getitem tweet ''id'' = Inr i"
  shows "\<exists>ds. tweet_list_of env username tweets [] = Inr ds \<and> length ds = length tweets
           \<and> (\<forall>k < length tweets.
                 getitem (tweets ! k) ''text'' = Inr (post_text (ds ! k))
                 \<and> (\<exists>i. getitem (tweets ! k) ''id'' = Inr i
                        \<and> post_url (ds ! k) = tweet_url env username i))"
  using assms
proof (induction tweets)
  case Nil
  show ?case by simp
next
  case (Cons tweet tweets)
  from Cons.prems obtain t i where ti: "getitem tweet ''text'' = Inr t" "getitem tweet ''id'' = Inr i"
    by auto
  from Cons.prems Cons.IH obtain ds where ds:
    "tweet_list_of env username tweets [] = Inr ds" "length ds = length tweets"
    "\<forall>k < length tweets.
        getitem (tweets ! k) ''text'' = Inr (post_text (ds ! k))
        \<and> (\<exists>i. getitem (tweets ! k) ''id'' = Inr i
               \<and> post_url (ds ! k) = tweet_url env username i)"
    by auto
  let ?d = "\<lparr>post_text = t, post_url = tweet_url env username i\<rparr>"
  have td: "tweet_dict env username tweet = Inr ?d"
    using ti by (simp add: tweet_dict_def)
  have res: "tweet_list_of env username (tweet # tweets) [] = Inr (?d # ds)"
    using td ds(1) by (simp add: tweet_list_of_append [of env username tweets "[_]"])
  have "\<forall>k < length (tweet # tweets).
          getitem ((tweet # tweets) ! k) ''text'' = Inr (post_text ((?d # ds) ! k))
          \<and> (\<exists>i. getitem ((tweet # tweets) ! k) ''id'' = Inr i
                 \<and> post_url ((?d # ds) ! k) = tweet_url env username i)"
  proof (intro allI impI)
    fix k assume "k < length (tweet # tweets)"
    then show "getitem ((tweet # tweets) ! k) ''text'' = Inr (post_text ((?d # ds) ! k))
          \<and> (\<exists>i. getitem ((tweet # tweets) ! k) ''id'' = Inr i
                 \<and> post_url ((?d # ds) ! k) = tweet_url env username i)"
      using ti ds(3) by (cases k) auto
  qed
  with res ds(2) show ?case by simp
qed

text \<open>
  C5, as the code has it. When the fixture request succeeds and the document is a list
  of at least three posts whose first three are records with an \<^verbatim>\<open>id\<close> and a \<^verbatim>\<open>text\<close>, a
  fetch with count 3 (\<^verbatim>\<open>scrape_user_tweets_mock\<close>, or \<^verbatim>\<open>scrape_user_tweets\<close> with
  \<^verbatim>\<open>use_mock=True\<close>) returns exactly three posts, the k-th carrying the k-th record's
  text as it stands in the fixture (so non-empty exactly when the fixture's is) and the
  url \<^verbatim>\<open>https://twitter.com/<handle>/status/<id>\<close> made of the handle as it was
  requested and \<^verbatim>\<open>str\<close> of that record's id.
\<close>

theorem scrape_user_tweets_mock_three:
  assumes fetched: "requests_get env EDEN_TWITTER_GIST [] 10 w = (Inr response, w')"
    and ok: "raise_for_status response = None"
    and parsed: "response_json response = Inr (JArr posts)"
    and three: "3 \<le> length posts"
    and records:
      "\<forall>k < 3. \<exists>t i. getitem (posts ! k) ''text'' = Inr t \<and> getitem (posts ! k) ''id'' = Inr i"
  shows "\<exists>tweet_list.
           scrape_user_tweets_mock env username 3 w = (Inr tweet_list, w')
         \<and> scrape_user_tweets env username 3 True w = (Inr tweet_list, w')
         \<and> length tweet_list = 3
         \<and> (\<forall>k < 3. \<exists>i.
               getitem (posts ! k) ''text'' = Inr (post_text (tweet_list ! k))
             \<and> getitem (posts ! k) ''id'' = Inr i
             \<and> post_url (tweet_list ! k) =
                 ''https://twitter.com/'' @ username @ ''/status/'' @ py_str env i)"
proof -
  let ?tweets = "py_slice_to 3 posts"
  have len: "length ?tweets = 3"
    using three by (simp add: py_slice_to_def)
  have nth: "\<And>k. k < 3 \<Longrightarrow> ?tweets ! k = posts ! k"
    by (simp add: py_slice_to_def)
  have "\<forall>tweet \<in> set ?tweets. \<exists>t i. getitem tweet ''text'' = Inr t \<and> getitem tweet ''id'' = Inr i"
  proof
    fix tweet assume "tweet \<in> set ?tweets"
    then obtain k where "k < 3" "tweet = ?tweets ! k"
      using len by (metis in_set_conv_nth)
    then show "\<exists>t i. getitem tweet ''text'' = Inr t \<and> getitem tweet ''id'' = Inr i"
      using records nth by auto
  qed
  from tweet_list_of_well_formed [OF this, of env username] len
  obtain ds where ds: "tweet_list_of env username ?tweets [] = Inr ds" "length ds = 3"
    "\<forall>k < 3. getitem (?tweets ! k) ''text'' = Inr (post_text (ds ! k))
        \<and> (\<exists>i. getitem (?tweets ! k) ''id'' = Inr i
               \<and> post_url (ds ! k) = tweet_url env username i)"
    by auto
  have m: "mock_tweet_list env username 3 response = Inr ds"
    using ok parsed ds(1) by (simp add: mock_tweet_list_def slice_to_def)
  have r: "scrape_user_tweets_mock env username 3 w = (Inr ds, w')"
    using fetched m by (simp add: scrape_user_tweets_mock_fetch)
  have r': "scrape_user_tweets env username 3 True w = (Inr ds, w')"
    using r by (simp add: scrape_user_tweets_def split: option.splits)
  have "\<forall>k < 3. \<exists>i.
               getitem (posts ! k) ''text'' = Inr (post_text (ds ! k))
             \<and> getitem (posts ! k) ''id'' = Inr i
             \<and> post_url (ds ! k) =
                 ''https://twitter.com/'' @ username @ ''/status/'' @ py_str env i"
  proof (intro allI impI)
    fix k :: nat assume k: "k < 3"
    from ds(3) k nth [OF k]
    show "\<exists>i.
               getitem (posts ! k) ''text'' = Inr (post_text (ds ! k))
             \<and> getitem (posts ! k) ''id'' = Inr i
             \<and> post_url (ds ! k) =
                 ''https://twitter.com/'' @ username @ ''/status/'' @ py_str env i"
      by (auto simp: tweet_url_def)
  qed
  with r r' ds(2) show ?thesis by blast
qed

theorem scrape_user_tweets_mock_three_witness:
  "\<exists>tweet_list.
     scrape_user_tweets_mock
       (demo_env (Inl connection_error) (Inr (ok_response tweets_fixture)) JNull) ''janedoe'' 3 0 =
       (Inr tweet_list, 1)
     \<and> length tweet_list = 3
     \<and> post_text (tweet_list ! 2) = JStr ''Agents''
     \<and> post_url (tweet_list ! 2) = ''https://twitter.com/janedoe/status/103''"
proof -
  let ?env = "demo_env (Inl connection_error) (Inr (ok_response tweets_fixture)) JNull"
  let ?posts = "[JObj [(''id'', JStr ''101''), (''text'', JStr ''Hello'')],
           JObj [(''id'', JStr ''102''), (''text'', JStr ''LangChain'')],
           JObj [(''text'', JStr ''Agents''), (''id'', JStr ''103'')],
           JObj [(''id'', JStr ''104''), (''text'', JStr ''RAG'')]]"
  have f: "requests_get ?env EDEN_TWITTER_GIST [] 10 0 = (Inr (ok_response tweets_fixture), 1)"
    by (simp add: demo_env_simps)
  have o: "raise_for_status (ok_response tweets_fixture) = None"
    and p: "response_json (ok_response tweets_fixture) = Inr (JArr ?posts)"
    by (simp_all add: ok_response_def tweets_fixture_def)
  have l: "3 \<le> length ?posts" by simp
  have rs: "\<forall>k < 3. \<exists>t i. getitem (?posts ! k) ''text'' = Inr t
                      \<and> getitem (?posts ! k) ''id'' = Inr i"
    by (simp add: numeral_3_eq_3 less_Suc_eq getitem_def)
  from scrape_user_tweets_mock_three [OF f o p l rs, of "''janedoe''"]
  obtain tweet_list where tl:
    "scrape_user_tweets_mock ?env ''janedoe'' 3 0 = (Inr tweet_list, 1)"
    "length tweet_list = 3"
    "\<forall>k < 3. \<exists>i.
               getitem (?posts ! k) ''text'' = Inr (post_text (tweet_list ! k))
             \<and> getitem (?posts ! k) ''id'' = Inr i
             \<and> post_url (tweet_list ! k) =
                 ''https://twitter.com/'' @ ''janedoe'' @ ''/status/'' @ py_str ?env i"
    by blast
  from tl(3) [rule_format, of 2] have "\<exists>i.
               getitem (?posts ! 2) ''text'' = Inr (post_text (tweet_list ! 2))
             \<and> getitem (?posts ! 2) ''id'' = Inr i
             \<and> post_url (tweet_list ! 2) =
                 ''https://twitter.com/'' @ ''janedoe'' @ ''/status/'' @ py_str ?env i"
    by simp
  then have "post_text (tweet_list ! 2) = JStr ''Agents''
     \<and> post_url (tweet_list ! 2) = ''https://twitter.com/janedoe/status/103''"
    by (auto simp: getitem_def demo_env_simps numeral_2_eq_2)
  with tl(1,2) show ?thesis by blast
qed

text \<open>
  The claim C5 as the specification words it has every returned post carry a non-empty
  text. The code copies \<^verbatim>\<open>tweet["text"]\<close> without looking at it: on a fixture of three
  posts of which the first has the empty string and the second null as its text, a fetch
  with count 3 returns three posts, the first with the empty text and the second with
  \<^verbatim>\<open>None\<close>.
\<close>

theorem scrape_user_tweets_mock_empty_text:
  "scrape_user_tweets_mock
     (demo_env (Inl connection_error) (Inr (ok_response empty_text_fixture)) JNull)
     ''janedoe'' 3 0 =
   (Inr [\<lparr>post_text = JStr '''', post_url = ''https://twitter.com/janedoe/status/201''\<rparr>,
         \<lparr>post_text = JNull, post_url = ''https://twitter.com/janedoe/status/202''\<rparr>,
         \<lparr>post_text = JStr ''Hello'', post_url = ''https://twitter.com/janedoe/status/203''\<rparr>],
    1)"
  by (simp add: scrape_user_tweets_mock_fetch demo_env_simps mock_tweet_list_def ok_response_def
      empty_text_fixture_def slice_to_def py_slice_to_def tweet_dict_def getitem_def tweet_url_def)




section \<open>The synthesis pipeline and the HTTP boundary\<close>

lemma str_items_Some: "str_items xs = Some fs \<Longrightarrow> xs = map JStr fs"
  by (induction xs arbitrary: fs rule: str_items.induct) auto

lemma str_items_map: "str_items (map JStr fs) = Some fs"
  by (induction fs) auto

lemma Summary_validate_Some:
  assumes "Summary_validate obj = Some res"
  shows "\<exists>kvs. obj = JObj kvs
           \<and> map_of kvs ''summary'' = Some (JStr (summary res))
           \<and> map_of kvs ''facts'' = Some (JArr (map JStr (facts res)))"
  using assms
  by (auto simp: Summary_validate_def dest: str_items_Some
      split: json.splits option.splits)

lemma Summary_validate_no_facts:
  "map_of kvs ''facts'' = None \<Longrightarrow> Summary_validate (JObj kvs) = None"
  by (simp add: Summary_validate_def split: option.splits json.splits)

lemma io_bind_Inr:
  "io_bind m f w = (Inr y, w') \<Longrightarrow> \<exists>x w1. m w = (Inr x, w1) \<and> f x w1 = (Inr y, w')"
  by (auto simp: io_bind_def split: prod.splits sum.splits)

lemma demo_scrape_linkedin_profile:
  "scrape_linkedin_profile
     (demo_env (Inr (ok_response profile_fixture)) gist obj) url False 10 w =
     (Inr [(''fullName'', JStr ''Jane Doe''), (''headline'', JStr ''Engineer'')], Suc w)"
  by (simp add: scrape_linkedin_profile_live [where api_key = "''secret''"] demo_env_simps
      io_bind_def io_lift_def cleaned_data_of_profile_fixture)

lemma demo_scrape_user_tweets:
  "scrape_user_tweets (demo_env live (Inl connection_error) obj) username 5 False w =
     (Inr [], Suc (Suc w))"
  by (simp add: scrape_user_tweets_def demo_env_simps live_tweet_list_def io_bind_def
      io_raise_def no_user_client_def scrape_user_tweets_mock_fetch)

lemma demo_ice_break_with:
  "ice_break_with
     (demo_env (Inr (ok_response profile_fixture)) (Inl connection_error) obj) name 0 =
     (case Summary_validate obj of
        None \<Rightarrow> (Inl (Exn OutputParserException ''Failed to parse Summary from completion''), 6)
      | Some res \<Rightarrow> (Inr (res, None), 6))"
  by (simp add: ice_break_with_def io_bind_def io_lift_def io_return_def demo_env_simps
      demo_scrape_linkedin_profile demo_scrape_user_tweets summary_parser_def
      split: option.splits)

text \<open>
  C1, as the code has it. A result that \<^verbatim>\<open>ice_break_with\<close> returns was accepted by the
  schema: the language model's reply decoded to an object holding a string under
  \<^verbatim>\<open>"summary"\<close> and a list of strings under \<^verbatim>\<open>"facts"\<close>, and these two are the fields of
  the result, neither missing nor null (the summary may be the empty string, the facts
  the empty list); in every other case the call raises. The second component is the
  profile's \<^verbatim>\<open>PhotoUrl\<close> entry, if any.
\<close>

theorem ice_break_with_result_complete:
  assumes "ice_break_with env name w = (Inr (res, photo_url), w')"
  shows "\<exists>linkedin_data tweets w4 text kvs.
           llm env linkedin_data tweets w4 = (Inr text, w')
         \<and> parse_json_markdown env text = Inr (JObj kvs)
         \<and> map_of kvs ''summary'' = Some (JStr (summary res))
         \<and> map_of kvs ''facts'' = Some (JArr (map JStr (facts res)))
         \<and> photo_url = map_of linkedin_data ''PhotoUrl''"
proof -
  from assms obtain linkedin_username w1 where
    "linkedin_lookup_agent env name w = (Inr linkedin_username, w1)"
    and a1: "io_bind (scrape_linkedin_profile env linkedin_username False 10) (\<lambda>linkedin_data.
     io_bind (twitter_lookup_agent env name) (\<lambda>twitter_username.
     io_bind (scrape_user_tweets env twitter_username 5 False) (\<lambda>tweets.
     io_bind (llm env linkedin_data tweets) (\<lambda>text.
     io_bind (io_lift (summary_parser env text)) (\<lambda>res.
     io_return (res, map_of linkedin_data ''PhotoUrl'')))))) w1 = (Inr (res, photo_url), w')"
    unfolding ice_break_with_def by (blast dest: io_bind_Inr)
  from io_bind_Inr [OF a1] obtain linkedin_data w2 where
    a2: "io_bind (twitter_lookup_agent env name) (\<lambda>twitter_username.
     io_bind (scrape_user_tweets env twitter_username 5 False) (\<lambda>tweets.
     io_bind (llm env linkedin_data tweets) (\<lambda>text.
     io_bind (io_lift (summary_parser env text)) (\<lambda>res.
     io_return (res, map_of linkedin_data ''PhotoUrl''))))) w2 = (Inr (res, photo_url), w')"
    by blast
  from io_bind_Inr [OF a2] obtain twitter_username w3 where
    a3: "io_bind (scrape_user_tweets env twitter_username 5 False) (\<lambda>tweets.
     io_bind (llm env linkedin_data tweets) (\<lambda>text.
     io_bind (io_lift (summary_parser env text)) (\<lambda>res.
     io_return (res, map_of linkedin_data ''PhotoUrl'')))) w3 = (Inr (res, photo_url), w')"
    by blast
  from io_bind_Inr [OF a3] obtain tweets w4 where
    a4: "io_bind (llm env linkedin_data tweets) (\<lambda>text.
     io_bind (io_lift (summary_parser env text)) (\<lambda>res.
     io_return (res, map_of linkedin_data ''PhotoUrl''))) w4 = (Inr (res, photo_url), w')"
    by blast
  from io_bind_Inr [OF a4] obtain reply w5 where
    l: "llm env linkedin_data tweets w4 = (Inr reply, w5)"
    and a5: "io_bind (io_lift (summary_parser env reply)) (\<lambda>res.
     io_return (res, map_of linkedin_data ''PhotoUrl'')) w5 = (Inr (res, photo_url), w')"
    by blast
  from a5 have p: "summary_parser env reply = Inr res" and w: "w5 = w'"
    and ph: "photo_url = map_of linkedin_data ''PhotoUrl''"
    by (auto simp: io_bind_def io_lift_def io_return_def split: sum.splits)
  from p obtain obj where o: "parse_json_markdown env reply = Inr obj"
    "Summary_validate obj = Some res"
    by (auto simp: summary_parser_def split: sum.splits option.splits)
  from Summary_validate_Some [OF o(2)] o(1) l w ph show ?thesis
    by blast
qed

theorem ice_break_with_result_complete_witness:
  "\<exists>linkedin_data tweets w4 text kvs.
     llm (demo_env (Inr (ok_response profile_fixture)) (Inl connection_error) valid_summary)
       linkedin_data tweets w4 = (Inr text, 6)
     \<and> parse_json_markdown
         (demo_env (Inr (ok_response profile_fixture)) (Inl connection_error) valid_summary) text
         = Inr (JObj kvs)
     \<and> map_of kvs ''summary'' = Some (JStr ''Jane Doe is an engineer.'')
     \<and> map_of kvs ''facts'' =
         Some (JArr [JStr ''She writes about agents.'', JStr ''She builds RAG systems.''])"
proof -
  let ?env = "demo_env (Inr (ok_response profile_fixture)) (Inl connection_error) valid_summary"
  have "ice_break_with ?env ''Jane Doe'' 0 =
          (Inr (\<lparr>summary = ''Jane Doe is an engineer.'',
                 facts = [''She writes about agents.'', ''She builds RAG systems.'']\<rparr>, None), 6)"
    by (simp add: demo_ice_break_with valid_summary_def Summary_validate_def)
  from ice_break_with_result_complete [OF this] show ?thesis
    by simp blast
qed

text \<open>
  The claim C1 as the specification words it asks for a non-empty summary. The schema
  has no such constraint: a reply that decodes to
  \<^verbatim>\<open>{"summary": "", "facts": []}\<close> is accepted, and for the non-empty name
  \<^verbatim>\<open>Jane Doe\<close> the pipeline returns a result whose summary is the empty string.
\<close>

theorem ice_break_with_empty_summary:
  "ice_break_with
     (demo_env (Inr (ok_response profile_fixture)) (Inl connection_error) empty_summary)
     ''Jane Doe'' 0 = (Inr (\<lparr>summary = '''', facts = []\<rparr>, None), 6)
   \<and> ''Jane Doe'' \<noteq> ''''
   \<and> summary \<lparr>summary = '''', facts = []\<rparr> = ''''"
  by (simp add: demo_ice_break_with empty_summary_def Summary_validate_def)

text \<open>
  C7. A form with no \<^verbatim>\<open>name\<close> field, or with the empty string under it, is answered
  with status 400 and the body \<^verbatim>\<open>{"error": "Name parameter is required"}\<close>, and the
  outside world is left as it was, whatever the pipeline would do to it: the pipeline is
  not called.
\<close>

theorem process_name_required:
  assumes "map_of form ''name'' = None \<or> map_of form ''name'' = Some ''''"
  shows "process debug env form w =
           (Inr \<lparr>status = 400,
                 body = JObj [(''error'', JStr ''Name parameter is required'')]\<rparr>, w)"
  using assms by (auto simp: process_def name_required_def)

theorem process_name_required_witness:
  "process True (demo_env (Inr (ok_response profile_fixture)) (Inl connection_error) valid_summary)
     [] 0 =
     (Inr \<lparr>status = 400, body = JObj [(''error'', JStr ''Name parameter is required'')]\<rparr>, 0)
   \<and> process False
       (demo_env (Inr (ok_response profile_fixture)) (Inl connection_error) valid_summary)
       [(''name'', '''')] 0 =
     (Inr \<lparr>status = 400, body = JObj [(''error'', JStr ''Name parameter is required'')]\<rparr>, 0)
   \<and> snd (ice_break_with
       (demo_env (Inr (ok_response profile_fixture)) (Inl connection_error) valid_summary)
       '''' 0) = 6"
proof -
  let ?env = "demo_env (Inr (ok_response profile_fixture)) (Inl connection_error) valid_summary"
  have a: "map_of ([] :: (string \<times> string) list) ''name'' = None
           \<or> map_of ([] :: (string \<times> string) list) ''name'' = Some ''''"
    by simp
  have b: "map_of [(''name'', '''')] ''name'' = None
           \<or> map_of [(''name'', '''')] ''name'' = Some ''''"
    by simp
  have c: "snd (ice_break_with ?env '''' 0) = 6"
    by (simp add: demo_ice_break_with split: option.splits)
  from process_name_required [OF a, of True ?env 0] process_name_required [OF b, of False ?env 0] c
  show ?thesis by simp
qed

text \<open>
  C8. For a request with a non-empty name: whatever exception the pipeline raises, the
  answer is status 500 with the fixed message, and \<^verbatim>\<open>details\<close> is the text of the
  exception when \<^verbatim>\<open>app.debug\<close> is set and null otherwise. The pipeline raises when the
  reply of the language model decodes to an object the schema rejects, and an object
  with no \<^verbatim>\<open>"facts"\<close> key is rejected.
\<close>

theorem process_pipeline_failure:
  assumes name: "map_of form ''name'' = Some name" "name \<noteq> ''''"
  shows
    "(\<forall>e w'. ice_break_with env name w = (Inl e, w') \<longrightarrow>
        process debug env form w =
          (Inr \<lparr>status = 500,
                body = JObj [(''error'',
                                JStr ''Failed to generate ice breaker content. Please try again.''),
                             (''details'', if debug then JStr (str_exn e) else JNull)]\<rparr>, w'))
   \<and> (\<forall>linkedin_username w1 linkedin_data w2 twitter_username w3 tweets w4 text w5 obj.
          linkedin_lookup_agent env name w = (Inr linkedin_username, w1)
        \<and> scrape_linkedin_profile env linkedin_username False 10 w1 = (Inr linkedin_data, w2)
        \<and> twitter_lookup_agent env name w2 = (Inr twitter_username, w3)
        \<and> scrape_user_tweets env twitter_username 5 False w3 = (Inr tweets, w4)
        \<and> llm env linkedin_data tweets w4 = (Inr text, w5)
        \<and> parse_json_markdown env text = Inr obj
        \<and> Summary_validate obj = None \<longrightarrow>
        ice_break_with env name w =
          (Inl (Exn OutputParserException (validation_error_text env obj)), w5))
   \<and> (\<forall>kvs. map_of kvs ''facts'' = None \<longrightarrow> Summary_validate (JObj kvs) = None)"
proof (intro conjI allI impI)
  fix e w' assume "ice_break_with env name w = (Inl e, w')"
  then show "process debug env form w =
          (Inr \<lparr>status = 500,
                body = JObj [(''error'',
                                JStr ''Failed to generate ice breaker content. Please try again.''),
                             (''details'', if debug then JStr (str_exn e) else JNull)]\<rparr>, w')"
    using name by (simp add: process_def io_bind_def)
next
  fix linkedin_username w1 linkedin_data w2 twitter_username w3 tweets w4 reply w5 obj
  assume "linkedin_lookup_agent env name w = (Inr linkedin_username, w1)
        \<and> scrape_linkedin_profile env linkedin_username False 10 w1 = (Inr linkedin_data, w2)
        \<and> twitter_lookup_agent env name w2 = (Inr twitter_username, w3)
        \<and> scrape_user_tweets env twitter_username 5 False w3 = (Inr tweets, w4)
        \<and> llm env linkedin_data tweets w4 = (Inr reply, w5)
        \<and> parse_json_markdown env reply = Inr obj
        \<and> Summary_validate obj = None"
  then show "ice_break_with env name w =
          (Inl (Exn OutputParserException (validation_error_text env obj)), w5)"
    by (simp add: ice_break_with_def io_bind_def io_lift_def summary_parser_def)
next
  fix kvs :: dict assume "map_of kvs ''facts'' = None"
  then show "Summary_validate (JObj kvs) = None"
    by (rule Summary_validate_no_facts)
qed

theorem process_pipeline_failure_witness:
  "process True (demo_env (Inr (ok_response profile_fixture)) (Inl connection_error) summary_only)
     [(''name'', ''Jane Doe'')] 0 =
     (Inr \<lparr>status = 500,
           body = JObj [(''error'',
                           JStr ''Failed to generate ice breaker content. Please try again.''),
                        (''details'', JStr ''Failed to parse Summary from completion'')]\<rparr>, 6)
   \<and> process False
       (demo_env (Inr (ok_response profile_fixture)) (Inl connection_error) summary_only)
       [(''name'', ''Jane Doe'')] 0 =
     (Inr \<lparr>status = 500,
           body = JObj [(''error'',
                           JStr ''Failed to generate ice breaker content. Please try again.''),
                        (''details'', JNull)]\<rparr>, 6)"
proof -
  let ?env = "demo_env (Inr (ok_response profile_fixture)) (Inl connection_error) summary_only"
  let ?e = "Exn OutputParserException ''Failed to parse Summary from completion''"
  have n: "map_of [(''name'', ''Jane Doe'')] ''name'' = Some ''Jane Doe''" "''Jane Doe'' \<noteq> ''''"
    by simp_all
  have v: "Summary_validate summary_only = None"
    by (simp add: summary_only_def Summary_validate_def)
  have r: "ice_break_with ?env ''Jane Doe'' 0 = (Inl ?e, 6)"
    by (simp add: demo_ice_break_with v)
  from process_pipeline_failure [OF n, of ?env 0 True] r
  have t: "process True ?env [(''name'', ''Jane Doe'')] 0 =
          (Inr \<lparr>status = 500,
                body = JObj [(''error'',
                                JStr ''Failed to generate ice breaker content. Please try again.''),
                             (''details'', if True then JStr (str_exn ?e) else JNull)]\<rparr>, 6)"
    by blast
  from process_pipeline_failure [OF n, of ?env 0 False] r
  have f: "process False ?env [(''name'', ''Jane Doe'')] 0 =
          (Inr \<lparr>status = 500,
                body = JObj [(''error'',
                                JStr ''Failed to generate ice breaker content. Please try again.''),
                             (''details'', if False then JStr (str_exn ?e) else JNull)]\<rparr>, 6)"
    by blast
  from t f show ?thesis by simp
qed

end
